theory Spec2Isabelle
  imports Main "HOL-Library.Char_ord" "HOL-Library.List_Lexorder" "HOL-Library.Multiset"
begin

section \<open>Slate's linear algebra compiler (firedrake/slate/slac/compiler.py)\<close>

text \<open>
  A shallow embedding of the kernel generator: the lowering of Slate expressions to
  Eigen text (\<open>slate_to_cpp\<close>), the statement generators of the COFFEE path
  (\<open>terminal_temporaries\<close>, \<open>tensor_assembly_calls\<close>, \<open>coefficient_temporaries\<close>,
  \<open>auxiliary_expressions\<close>, \<open>generate_kernel_ast\<close>, \<open>generate_kernel\<close>), the
  argument list of the loopy path (\<open>gem_to_loopy\<close>) and the per-expression cache of
  \<open>compile_expression\<close>.
\<close>

subsection \<open>Errors and results\<close>

datatype error = NotImplementedError string | ValueError string | IndexError string | KeyError string

type_synonym 'a result = "error + 'a"

definition rbind :: "'a result \<Rightarrow> ('a \<Rightarrow> 'b result) \<Rightarrow> 'b result" where
  "rbind r f = (case r of Inl e \<Rightarrow> Inl e | Inr x \<Rightarrow> f x)"

subsection \<open>Text\<close>

text \<open>Python's \<open>"%d" % n\<close>.\<close>

fun string_of_nat :: "nat \<Rightarrow> string" where
  "string_of_nat n =
     (if n < 10 then [char_of (48 + n)]
      else string_of_nat (n div 10) @ [char_of (48 + n mod 10)])"

declare string_of_nat.simps [simp del]

definition string_of_int :: "int \<Rightarrow> string" where
  "string_of_int i = (if i < 0 then ''-'' @ string_of_nat (nat (- i)) else string_of_nat (nat i))"

text \<open>
  The generated C++ is text. The model keeps it as a list of fragments, so that the
  places where the name of a symbol is spliced into the text stay visible: \<open>Use t\<close> is
  a place where the text reads the symbol \<open>t\<close>, \<open>Def t\<close> a place where the text
  declares or fills it, \<open>Lit s\<close> is any other text. \<open>gencode\<close> gives the text itself.
\<close>

datatype frag = Lit string | Use string | Def string

type_synonym code = "frag list"



fun frag_uses :: "frag \<Rightarrow> string list" where
  "frag_uses (Use s) = [s]"
| "frag_uses _ = []"

fun frag_defs :: "frag \<Rightarrow> string list" where
  "frag_defs (Def s) = [s]"
| "frag_defs _ = []"

definition code_uses :: "code \<Rightarrow> string list" where
  "code_uses c = concat (map frag_uses c)"

definition code_defs :: "code \<Rightarrow> string list" where
  "code_defs c = concat (map frag_defs c)"

subsection \<open>Slate expressions\<close>

text \<open>
  The node classes of \<open>firedrake.slate.slate\<close> that the compiler dispatches on.
  Equality of nodes is structural, as the keys of the compiler's dictionaries are.
  A \<open>Block\<close> carries its \<open>_indices\<close>, each entry already a tuple (\<open>as_tuple\<close>); a
  \<open>Factorization\<close> carries its \<open>decomposition\<close>.
\<close>

datatype expr =
    Tensor string
  | AssembledVector string
  | Transpose expr
  | Inverse expr
  | Negative expr
  | Add expr expr
  | Mul expr expr
  | Solve expr expr
  | Block expr "int list list"
  | Factorization expr string

fun operands :: "expr \<Rightarrow> expr list" where
  "operands (Tensor _) = []"
| "operands (AssembledVector _) = []"
| "operands (Transpose t) = [t]"
| "operands (Inverse t) = [t]"
| "operands (Negative t) = [t]"
| "operands (Add a b) = [a, b]"
| "operands (Mul a b) = [a, b]"
| "operands (Solve a b) = [a, b]"
| "operands (Block t _) = [t]"
| "operands (Factorization t _) = [t]"

text \<open>
  What the compiler imports and does not define: the attributes of Slate nodes
  (\<open>shape\<close>, \<open>rank\<close>, \<open>prec\<close>, \<open>shapes\<close>, \<open>is_mixed\<close>, \<open>ufl_domains\<close>,
  \<open>coefficients\<close>, \<open>expression_hash\<close>, and \<open>_function\<close> of an assembled vector,
  here \<open>vec_function\<close>), \<open>ScalarType_c\<close>, \<open>topological_sort\<close>, the
  default form compiler parameters, \<open>md5\<close>, and the communicator \<open>comm\<close> of a domain. They are parameters of the model.
\<close>

record coeff_function =
  fname :: string
  mixed_element :: bool
  nsplit :: nat

record slate =
  shape :: "expr \<Rightarrow> int list"
  rank :: "expr \<Rightarrow> int"
  prec :: "expr \<Rightarrow> int option"
  shapes :: "expr \<Rightarrow> int list list"
  is_mixed :: "expr \<Rightarrow> bool"
  ufl_domains :: "expr \<Rightarrow> string list"
  coefficients :: "expr \<Rightarrow> coeff_function list"
  expression_hash :: "expr \<Rightarrow> string"
  ScalarType_c :: string
  topological_sort :: "expr list \<Rightarrow> expr list"
  form_compiler_parameters :: "(string \<times> string) list"
  vec_function :: "expr \<Rightarrow> coeff_function"
  md5 :: "string \<Rightarrow> string"
  comm :: "string \<Rightarrow> string"

subsection \<open>Dictionaries that keep their order\<close>

text \<open>
  \<open>declared_temps\<close>, \<open>builder.temps\<close> and \<open>builder.coefficient_vecs\<close> are
  dictionaries whose length and order the compiler uses: association lists.
\<close>

fun dict_set :: "('k \<times> 'v) list \<Rightarrow> 'k \<Rightarrow> 'v \<Rightarrow> ('k \<times> 'v) list" where
  "dict_set [] k v = [(k, v)]"
| "dict_set ((k', v') # d) k v = (if k' = k then (k, v) # d else (k', v') # dict_set d k v)"

type_synonym temps = "(expr \<times> string) list"

subsection \<open>Lowering to Eigen text\<close>

definition parenthesize :: "code \<Rightarrow> int option \<Rightarrow> int option \<Rightarrow> code" where
  "parenthesize arg pr parent =
     (case pr of None \<Rightarrow> arg
      | Some p \<Rightarrow> (case parent of None \<Rightarrow> arg
          | Some q \<Rightarrow> if p \<ge> q then arg else [Lit ''(''] @ arg @ [Lit '')'']))"

text \<open>Python's \<open>xs[:k]\<close>, \<open>min\<close> of a tuple, and the test for consecutive indices.\<close>

definition slice_to :: "'a list \<Rightarrow> int \<Rightarrow> 'a list" where
  "slice_to xs k = (if k < 0 then take (length xs - nat (- k)) xs else take (nat k) xs)"

definition py_min :: "int list \<Rightarrow> int result" where
  "py_min xs = (case xs of [] \<Rightarrow> Inl (ValueError ''min() arg is an empty sequence'')
                | x # ys \<Rightarrow> Inr (Min (set (x # ys))))"

fun contiguous :: "int list \<Rightarrow> bool" where
  "contiguous [] = True"
| "contiguous [x] = True"
| "contiguous (x # y # ys) = (x + 1 = y \<and> contiguous (y # ys))"

definition py_index :: "'a list \<Rightarrow> nat \<Rightarrow> 'a result" where
  "py_index xs i = (if i < length xs then Inr (xs ! i) else Inl (IndexError ''index out of range''))"

definition eigen_matrixbase_type :: "int list \<Rightarrow> string result" where
  "eigen_matrixbase_type shp =
     (if length shp > 2
      then Inl (NotImplementedError (string_of_nat (length shp) @ ''-rank tensors are not supported.''))
      else
        let rows = (if length shp = 0 then 1 else shp ! 0);
            cols = (if length shp = 2 then shp ! 1 else 1);
            order = (if cols \<noteq> 1 then '', Eigen::RowMajor'' else '''')
        in Inr (''Eigen::Matrix<double, '' @ string_of_int rows @ '', '' @ string_of_int cols
                @ order @ ''>''))"

text \<open>
  The \<open>Block\<close> branch of \<open>slate_to_cpp\<close>, in the order of the source: the indices
  are unpacked (one entry means the column index 0), then tested for gaps, then the shape
  and the start of the block are computed, then the operand is lowered.
\<close>

definition unpack_indices :: "int list list \<Rightarrow> (int list \<times> int list) result" where
  "unpack_indices indices =
     (case indices of
        [ridx, cidx] \<Rightarrow> Inr (ridx, cidx)
      | [ridx] \<Rightarrow> Inr (ridx, [0])
      | _ \<Rightarrow> Inl (ValueError ''not enough values to unpack''))"

definition block_extents ::
  "slate \<Rightarrow> expr \<Rightarrow> expr \<Rightarrow> int list \<Rightarrow> int list \<Rightarrow> (int \<times> int \<times> int \<times> int) result" where
  "block_extents sl expr tensor rids cids =
     rbind (py_index (shape sl expr) 0) (\<lambda>rshape.
     rbind (py_index (shapes sl tensor) 0) (\<lambda>shapes0.
     rbind (py_min rids) (\<lambda>rmin.
     if rank sl expr = 1 then Inr (rshape, 1, sum_list (slice_to shapes0 rmin), 0)
     else rbind (py_index (shape sl expr) 1) (\<lambda>cshape.
          rbind (py_index (shapes sl tensor) 1) (\<lambda>shapes1.
          rbind (py_min cids) (\<lambda>cmin.
          Inr (rshape, cshape, sum_list (slice_to shapes0 rmin),
               sum_list (slice_to shapes1 cmin))))))))"

definition block_call :: "int \<Rightarrow> int \<Rightarrow> int \<Rightarrow> int \<Rightarrow> string" where
  "block_call rshape cshape rstart cstart =
     '').block<'' @ string_of_int rshape @ '', '' @ string_of_int cshape @ ''>(''
     @ string_of_int rstart @ '', '' @ string_of_int cstart @ '')''"

fun slate_to_cpp :: "slate \<Rightarrow> temps \<Rightarrow> expr \<Rightarrow> int option \<Rightarrow> code result" where
  "slate_to_cpp sl tmps (Transpose tensor) pr =
     (case map_of tmps (Transpose tensor) of Some t \<Rightarrow> Inr [Use t]
      | None \<Rightarrow>
          rbind (slate_to_cpp sl tmps tensor None) (\<lambda>s.
          Inr ([Lit ''(''] @ s @ [Lit '').transpose()''])))"
| "slate_to_cpp sl tmps (Inverse tensor) pr =
     (case map_of tmps (Inverse tensor) of Some t \<Rightarrow> Inr [Use t]
      | None \<Rightarrow>
          rbind (slate_to_cpp sl tmps tensor None) (\<lambda>s.
          Inr ([Lit ''(''] @ s @ [Lit '').inverse()''])))"
| "slate_to_cpp sl tmps (Negative tensor) pr =
     (case map_of tmps (Negative tensor) of Some t \<Rightarrow> Inr [Use t]
      | None \<Rightarrow>
          rbind (slate_to_cpp sl tmps tensor (prec sl (Negative tensor))) (\<lambda>s.
          Inr (parenthesize ([Lit ''-''] @ s) (prec sl (Negative tensor)) pr)))"
| "slate_to_cpp sl tmps (Add A B) pr =
     (case map_of tmps (Add A B) of Some t \<Rightarrow> Inr [Use t]
      | None \<Rightarrow>
          rbind (slate_to_cpp sl tmps A (prec sl (Add A B))) (\<lambda>a.
          rbind (slate_to_cpp sl tmps B (prec sl (Add A B))) (\<lambda>b.
          Inr (parenthesize (a @ [Lit '' + ''] @ b) (prec sl (Add A B)) pr))))"
| "slate_to_cpp sl tmps (Mul A B) pr =
     (case map_of tmps (Mul A B) of Some t \<Rightarrow> Inr [Use t]
      | None \<Rightarrow>
          rbind (slate_to_cpp sl tmps A (prec sl (Mul A B))) (\<lambda>a.
          rbind (slate_to_cpp sl tmps B (prec sl (Mul A B))) (\<lambda>b.
          Inr (parenthesize (a @ [Lit '' * ''] @ b) (prec sl (Mul A B)) pr))))"
| "slate_to_cpp sl tmps (Block tensor indices) pr =
     (case map_of tmps (Block tensor indices) of Some t \<Rightarrow> Inr [Use t]
      | None \<Rightarrow>
          rbind (unpack_indices indices) (\<lambda>(rids, cids).
          if \<not> (contiguous rids \<and> contiguous cids)
          then Inl (NotImplementedError ''Non-contiguous blocks not implemented'')
          else
            rbind (block_extents sl (Block tensor indices) tensor rids cids)
              (\<lambda>(rshape, cshape, rstart, cstart).
            rbind (slate_to_cpp sl tmps tensor (prec sl (Block tensor indices))) (\<lambda>s.
            Inr (parenthesize
                   ([Lit ''(''] @ s @ [Lit (block_call rshape cshape rstart cstart)])
                   (prec sl (Block tensor indices)) pr)))))"
| "slate_to_cpp sl tmps (Solve A B) pr =
     (case map_of tmps (Solve A B) of Some t \<Rightarrow> Inr [Use t]
      | None \<Rightarrow>
          rbind (slate_to_cpp sl tmps A (prec sl (Solve A B))) (\<lambda>a.
          rbind (slate_to_cpp sl tmps B (prec sl (Solve A B))) (\<lambda>b.
          Inr (parenthesize (a @ [Lit ''.solve(''] @ b @ [Lit '')'']) (prec sl (Solve A B)) pr))))"
| "slate_to_cpp sl tmps e pr =
     (case map_of tmps e of Some t \<Rightarrow> Inr [Use t]
      | None \<Rightarrow> Inl (NotImplementedError ''Type not supported.''))"

subsection \<open>COFFEE syntax trees\<close>

text \<open>
  The nodes of \<open>coffee.base\<close> that the compiler builds. \<open>Cpp\<close> is a piece of
  generated Eigen text in the place of an expression; \<open>Str\<close> is a bare Python string
  in the statement list; \<open>FunCall\<close> is a call of a subkernel, as the builder supplies
  them in \<open>assembly_calls\<close>. An \<open>If\<close> has a branch and possibly an else branch.
  COFFEE's \<open>Block\<close> is \<open>AstBlock\<close> here, Slate's \<open>Block\<close> keeps the name.
\<close>

datatype cexpr =
    Symbol string "cexpr list"
  | IntLit int
  | Sum cexpr cexpr
  | Eq cexpr cexpr
  | Less cexpr cexpr
  | Cpp code

datatype stmt =
    FlatBlock code
  | Decl string string "int option" "string list" "string list"
  | Assign cexpr cexpr
  | Incr cexpr cexpr
  | If cexpr stmt "stmt option"
  | AstBlock "stmt list"
  | For stmt cexpr stmt "stmt list"
  | Str code
  | FunCall string "string list"

subsection \<open>The kernel builder\<close>

record assembly_calls =
  cell :: "stmt list"
  interior_facet :: "stmt list"
  interior_facet_vert :: "stmt list"
  exterior_facet :: "stmt list"
  exterior_facet_vert :: "stmt list"
  subdomains_exterior_facet :: "(int \<times> stmt) list"
  subdomains_interior_facet :: "(int \<times> stmt) list"
  interior_facet_horiz_top :: "stmt list"
  interior_facet_horiz_bottom :: "stmt list"
  exterior_facet_top :: "stmt list"
  exterior_facet_bottom :: "stmt list"

record cinfo =
  space_index :: nat
  offset_index :: int
  c_shape :: "int list"
  vector :: expr
  local_temp :: string

text \<open>
  The attributes of \<open>LocalKernelBuilder\<close> that the compiler reads. \<open>extruded\<close>,
  \<open>cell_num_facets\<close>, \<open>base_cell_num_facets\<close> and \<open>layers\<close> are what the compiler
  reads from the domain of the expression: \<open>cell_set._extruded\<close>,
  \<open>ufl_cell().num_facets()\<close>, \<open>ufl_cell()._cells[0].num_facets()\<close> and
  \<open>topological.layers\<close>.
\<close>

record builder =
  expression :: expr
  temps :: temps
  assembly_calls :: assembly_calls
  coefficient_vecs :: "(int \<times> cinfo list) list"
  coefficient :: "coeff_function \<Rightarrow> string list"
  expression_dag :: "expr list"
  ref_counter :: "expr \<Rightarrow> nat"
  needs_cell_facets :: bool
  needs_mesh_layers :: bool
  needs_cell_sizes :: bool
  oriented :: bool
  integral_type :: string
  coord_sym :: string
  cell_orientations_sym :: string
  cell_facet_sym :: string
  it_sym :: string
  mesh_layer_sym :: string
  cell_size_sym :: string
  extruded :: bool
  cell_num_facets :: int
  base_cell_num_facets :: int
  layers :: int

subsection \<open>Terminal temporaries\<close>

fun terminal_temporaries_loop ::
  "slate \<Rightarrow> temps \<Rightarrow> stmt list \<Rightarrow> temps \<Rightarrow> (stmt list \<times> temps) result" where
  "terminal_temporaries_loop sl [] statements declared_temps = Inr (statements, declared_temps)"
| "terminal_temporaries_loop sl ((exp, t) # rest) statements declared_temps =
     rbind (eigen_matrixbase_type (shape sl exp)) (\<lambda>ty.
     terminal_temporaries_loop sl rest
       (statements @ [Decl ty t None [] [], FlatBlock [Def t, Lit ''.setZero();\<newline>'']])
       (dict_set declared_temps exp t))"

definition terminal_temporaries ::
  "slate \<Rightarrow> builder \<Rightarrow> temps \<Rightarrow> (stmt list \<times> temps) result" where
  "terminal_temporaries sl b declared_temps =
     terminal_temporaries_loop sl (temps b)
       [FlatBlock [Lit ''/* Declare and initialize */\<newline>'']] declared_temps"

subsection \<open>Assembly calls\<close>

text \<open>\<open>gem.utils.groupby\<close>: the groups in the order of the first member of each.\<close>

fun group_add :: "('k \<times> 'a list) list \<Rightarrow> 'k \<Rightarrow> 'a \<Rightarrow> ('k \<times> 'a list) list" where
  "group_add [] k x = [(k, [x])]"
| "group_add ((k', xs) # g) k x =
     (if k' = k then (k', xs @ [x]) # g else (k', xs) # group_add g k x)"

definition groupby :: "'a list \<Rightarrow> ('a \<Rightarrow> 'k) \<Rightarrow> ('k \<times> 'a list) list" where
  "groupby iterable key = foldl (\<lambda>groups elem. group_add groups (key elem) elem) [] iterable"

definition subdomain_stmts :: "builder \<Rightarrow> (int \<times> stmt) list \<Rightarrow> stmt list" where
  "subdomain_stmts b sd_calls_all =
     map (\<lambda>(sd, sd_calls).
            If (Eq (Symbol (cell_facet_sym b) [Symbol (it_sym b) [], IntLit 1]) (IntLit sd))
               (AstBlock (map snd sd_calls)) None)
         (groupby sd_calls_all fst)"

definition int_calls :: "builder \<Rightarrow> stmt list" where
  "int_calls b =
     (interior_facet (assembly_calls b) @ interior_facet_vert (assembly_calls b))
     @ subdomain_stmts b (subdomains_interior_facet (assembly_calls b))"

definition ext_calls :: "builder \<Rightarrow> stmt list" where
  "ext_calls b =
     (exterior_facet (assembly_calls b) @ exterior_facet_vert (assembly_calls b))
     @ subdomain_stmts b (subdomains_exterior_facet (assembly_calls b))"

definition facet_body :: "builder \<Rightarrow> stmt list" where
  "facet_body b =
     (let if_ext = Eq (Symbol (cell_facet_sym b) [Symbol (it_sym b) [], IntLit 0]) (IntLit 0);
          if_int = Eq (Symbol (cell_facet_sym b) [Symbol (it_sym b) [], IntLit 0]) (IntLit 1)
      in (if ext_calls b \<noteq> [] then [If if_ext (AstBlock (ext_calls b)) None] else [])
       @ (if int_calls b \<noteq> [] then [If if_int (AstBlock (int_calls b)) None] else []))"

definition facet_loop :: "builder \<Rightarrow> stmt" where
  "facet_loop b =
     (let num_facets = (if extruded b then base_cell_num_facets b else cell_num_facets b)
      in For (Decl ''unsigned int'' (it_sym b) (Some 0) [] [])
             (Less (Symbol (it_sym b) []) (IntLit num_facets))
             (Incr (Symbol (it_sym b) []) (IntLit 1))
             (facet_body b))"

definition layer_dispatch :: "builder \<Rightarrow> stmt" where
  "layer_dispatch b =
     (let calls = assembly_calls b;
          num_layers = layers b - 1;
          int_top = interior_facet_horiz_top calls;
          int_btm = interior_facet_horiz_bottom calls;
          ext_top = exterior_facet_top calls;
          ext_btm = exterior_facet_bottom calls;
          eq_layer = Eq (Symbol (mesh_layer_sym b) []) (IntLit (num_layers - 1));
          bottom = AstBlock (int_top @ ext_btm);
          top = AstBlock (int_btm @ ext_top);
          rest = AstBlock (int_btm @ int_top)
      in If (Eq (Symbol (mesh_layer_sym b) []) (IntLit 0)) bottom (Some (If eq_layer top (Some rest))))"

definition tensor_assembly_calls :: "builder \<Rightarrow> stmt list" where
  "tensor_assembly_calls b =
     [FlatBlock [Lit ''/* Assemble local tensors */\<newline>'']]
     @ cell (assembly_calls b)
     @ (if needs_cell_facets b
        then [FlatBlock [Lit ''/* Loop over cell facets */\<newline>''], facet_loop b] else [])
     @ (if needs_mesh_layers b
        then [FlatBlock [Lit ''/* Mesh levels: */\<newline>''], layer_dispatch b] else [])"

subsection \<open>Coefficient temporaries\<close>

fun coefficient_assignments ::
  "slate \<Rightarrow> builder \<Rightarrow> cinfo list \<Rightarrow> stmt list \<Rightarrow> temps \<Rightarrow> stmt list
   \<Rightarrow> (stmt list \<times> temps \<times> stmt list) result" where
  "coefficient_assignments sl b [] statements declared_temps assignments =
     Inr (statements, declared_temps, assignments)"
| "coefficient_assignments sl b (ci # rest) statements declared_temps assignments =
     (let fs_i = space_index ci;
          offset = offset_index ci;
          function = vec_function sl (vector ci);
          t = local_temp ci
      in rbind (if map_of declared_temps (vector ci) = None
                then rbind (eigen_matrixbase_type (c_shape ci)) (\<lambda>c_type.
                     Inr (statements @ [Decl c_type t None [] []],
                          dict_set declared_temps (vector ci) t))
                else Inr (statements, declared_temps)) (\<lambda>(statements, declared_temps).
         rbind (py_index (coefficient b function) fs_i) (\<lambda>csym.
         coefficient_assignments sl b rest statements declared_temps
           (assignments @
              [Assign (Symbol t [Sum (IntLit offset) (Symbol ''j1'' [])])
                      (Symbol csym [Symbol ''j1'' []])]))))"

fun coefficient_loops ::
  "slate \<Rightarrow> builder \<Rightarrow> (int \<times> cinfo list) list \<Rightarrow> stmt list \<Rightarrow> temps \<Rightarrow> stmt list
   \<Rightarrow> (stmt list \<times> temps \<times> stmt list) result" where
  "coefficient_loops sl b [] statements declared_temps loops =
     Inr (statements, declared_temps, loops)"
| "coefficient_loops sl b ((dofs, cinfo_list) # rest) statements declared_temps loops =
     rbind (coefficient_assignments sl b cinfo_list statements declared_temps [])
       (\<lambda>(statements, declared_temps, assignments).
     coefficient_loops sl b rest statements declared_temps
       (loops @ [For (Decl ''unsigned int'' ''j1'' (Some 0) [] [])
                     (Less (Symbol ''j1'' []) (IntLit dofs))
                     (Incr (Symbol ''j1'' []) (IntLit 1))
                     assignments]))"

definition coefficient_temporaries ::
  "slate \<Rightarrow> builder \<Rightarrow> temps \<Rightarrow> (stmt list \<times> temps) result" where
  "coefficient_temporaries sl b declared_temps =
     rbind (coefficient_loops sl b (coefficient_vecs b)
              [FlatBlock [Lit ''/* Coefficient temporaries */\<newline>'']] declared_temps
              [FlatBlock [Lit ''/* Loops for coefficient temps */\<newline>'']])
       (\<lambda>(statements, declared_temps, loops). Inr (statements @ loops, declared_temps))"

subsection \<open>Auxiliary temporaries\<close>

fun is_terminals :: "expr \<Rightarrow> bool" where
  "is_terminals (Tensor _) = True"
| "is_terminals (AssembledVector _) = True"
| "is_terminals (Negative _) = True"
| "is_terminals (Transpose _) = True"
| "is_terminals _ = False"

fun is_Factorization :: "expr \<Rightarrow> bool" where
  "is_Factorization (Factorization _ _) = True"
| "is_Factorization _ = False"

definition sorted_exprs :: "slate \<Rightarrow> builder \<Rightarrow> expr list" where
  "sorted_exprs sl b =
     filter (\<lambda>exp. (ref_counter b exp > 1 \<and> \<not> is_terminals exp) \<or> is_Factorization exp)
            (topological_sort sl (expression_dag b))"

fun auxiliary_step :: "slate \<Rightarrow> expr \<Rightarrow> temps \<Rightarrow> (stmt list \<times> string) result" where
  "auxiliary_step sl (Factorization operand decomposition) declared_temps =
     (let t = ''dec'' @ string_of_nat (length declared_temps)
      in rbind (slate_to_cpp sl declared_temps operand None) (\<lambda>expr.
         rbind (eigen_matrixbase_type (shape sl (Factorization operand decomposition))) (\<lambda>tensor_type.
         Inr ([Str ([Lit (''Eigen::'' @ decomposition @ ''<'' @ tensor_type @ '' > ''), Def t, Lit ''('']
                    @ expr @ [Lit '');\<newline>''])], t))))"
| "auxiliary_step sl exp declared_temps =
     (let t = ''auxT'' @ string_of_nat (length declared_temps)
      in rbind (slate_to_cpp sl declared_temps exp None) (\<lambda>result.
         rbind (eigen_matrixbase_type (shape sl exp)) (\<lambda>tensor_type.
         Inr ([Decl tensor_type t None [] [], Assign (Symbol t []) (Cpp result)], t))))"

fun auxiliary_loop ::
  "slate \<Rightarrow> expr list \<Rightarrow> stmt list \<Rightarrow> temps \<Rightarrow> (stmt list \<times> temps) result" where
  "auxiliary_loop sl [] statements declared_temps = Inr (statements, declared_temps)"
| "auxiliary_loop sl (exp # rest) statements declared_temps =
     (if map_of declared_temps exp = None
      then rbind (auxiliary_step sl exp declared_temps) (\<lambda>(stmts, t).
           auxiliary_loop sl rest (statements @ stmts) (dict_set declared_temps exp t))
      else auxiliary_loop sl rest statements declared_temps)"

definition auxiliary_expressions ::
  "slate \<Rightarrow> builder \<Rightarrow> temps \<Rightarrow> (stmt list \<times> temps) result" where
  "auxiliary_expressions sl b declared_temps =
     auxiliary_loop sl (sorted_exprs sl b) [] declared_temps"

subsection \<open>The kernel and its arguments\<close>

text \<open>
  Of the \<open>op2.Kernel\<close> the model keeps the name, the arguments and the body of the
  macro kernel; the subkernels, include directories and flop count pass through from
  the builder unchanged.
\<close>

record kernel =
  k_name :: string
  k_args :: "stmt list"
  k_body :: "stmt list"

record kernel_info =
  ki_kernel :: kernel
  ki_integral_type :: string
  ki_oriented :: bool
  ki_subdomain_id :: string
  ki_domain_number :: nat
  ki_coefficient_map :: "nat list"
  ki_needs_cell_facets :: bool
  ki_pass_layer_arg :: bool
  ki_needs_cell_sizes :: bool

datatype split_kernel = SplitKernel "int list" kernel_info

definition restrict_const :: "string \<Rightarrow> string \<Rightarrow> stmt" where
  "restrict_const ty name = Decl ty name None [''const''] [''restrict'']"

definition kernel_args :: "slate \<Rightarrow> builder \<Rightarrow> stmt \<Rightarrow> stmt list" where
  "kernel_args sl b result =
     [result, restrict_const (ScalarType_c sl) (coord_sym b)]
     @ (if oriented b then [restrict_const ''int'' (cell_orientations_sym b)] else [])
     @ concat (map (\<lambda>c. map (restrict_const (ScalarType_c sl)) (coefficient b c))
                   (coefficients sl (expression b)))
     @ (if needs_cell_facets b then [restrict_const ''int8_t'' ''arg_cell_facets''] else [])
     @ (if needs_mesh_layers b then [Decl ''int'' (mesh_layer_sym b) None [] []] else [])
     @ (if needs_cell_sizes b then [restrict_const (ScalarType_c sl) (cell_size_sym b)] else [])"

definition facet_cast :: "builder \<Rightarrow> stmt" where
  "facet_cast b =
     FlatBlock [Lit (''int8_t (*'' @ cell_facet_sym b @ '')[2] = (int8_t (*)[2])arg_cell_facets;\<newline>'')]"

definition kernel_body :: "slate \<Rightarrow> builder \<Rightarrow> stmt list \<Rightarrow> temps \<Rightarrow> stmt list result" where
  "kernel_body sl b statements declared_temps =
     (let slate_expr = expression b;
          shp = (if rank sl slate_expr = 0 then [1] else shape sl slate_expr);
          result_sym = ''T'' @ string_of_nat (length declared_temps);
          result_data_sym = ''A'' @ string_of_nat (length declared_temps)
      in rbind (eigen_matrixbase_type shp) (\<lambda>mtype.
         rbind (slate_to_cpp sl declared_temps slate_expr None) (\<lambda>cpp_string.
         Inr ((if needs_cell_facets b then [facet_cast b] else [])
              @ statements
              @ [FlatBlock [Lit ''/* Map eigen tensor into C struct */\<newline>''],
                 FlatBlock [Lit (''Eigen::Map<'' @ mtype @ '' > ''), Def result_sym,
                            Lit (''(('' @ ScalarType_c sl @ '' *)'' @ result_data_sym @ '');\<newline>'')],
                 FlatBlock [Lit ''/* Linear algebra expression */\<newline>''],
                 Incr (Symbol result_sym []) (Cpp cpp_string)]))))"

definition generate_kernel_ast ::
  "slate \<Rightarrow> builder \<Rightarrow> stmt list \<Rightarrow> temps \<Rightarrow> kernel_info result" where
  "generate_kernel_ast sl b statements declared_temps =
     rbind (kernel_body sl b statements declared_temps) (\<lambda>stmts.
     Inr \<lparr> ki_kernel = \<lparr> k_name = ''pyop2_kernel_compile_slate'',
                         k_args = kernel_args sl b
                           (Decl (ScalarType_c sl) (''A'' @ string_of_nat (length declared_temps))
                                 None [] [''restrict'']),
                         k_body = stmts \<rparr>,
           ki_integral_type = integral_type b,
           ki_oriented = oriented b,
           ki_subdomain_id = ''otherwise'',
           ki_domain_number = 0,
           ki_coefficient_map = [0 ..< length (coefficients sl (expression b))],
           ki_needs_cell_facets = needs_cell_facets b,
           ki_pass_layer_arg = needs_mesh_layers b,
           ki_needs_cell_sizes = needs_cell_sizes b \<rparr>)"

subsection \<open>Kernel generation\<close>

type_synonym params = "(string \<times> string) list"

definition kernel_statements :: "slate \<Rightarrow> builder \<Rightarrow> (stmt list \<times> temps) result" where
  "kernel_statements sl b =
     rbind (terminal_temporaries sl b []) (\<lambda>(terminal_declarations, declared_temps).
     rbind (if coefficient_vecs b \<noteq> [] then coefficient_temporaries sl b declared_temps
            else Inr ([], declared_temps)) (\<lambda>(coefficient_temps, declared_temps).
     rbind (auxiliary_expressions sl b declared_temps) (\<lambda>(aux, declared_temps).
     Inr (terminal_declarations @ tensor_assembly_calls b @ coefficient_temps @ aux,
          declared_temps))))"

definition generate_kernel ::
  "slate \<Rightarrow> (expr \<Rightarrow> params \<Rightarrow> builder result) \<Rightarrow> expr \<Rightarrow> params \<Rightarrow> split_kernel list result" where
  "generate_kernel sl LocalKernelBuilder slate_expr tsfc_parameters =
     (if is_mixed sl slate_expr
      then Inl (NotImplementedError ''Compiling mixed slate expressions'')
      else if length (ufl_domains sl slate_expr) > 1
      then Inl (NotImplementedError ''Multiple domains not implemented.'')
      else rbind (LocalKernelBuilder slate_expr tsfc_parameters) (\<lambda>b.
           rbind (kernel_statements sl b) (\<lambda>(statements, declared_temps).
           rbind (generate_kernel_ast sl b statements declared_temps) (\<lambda>kinfo.
           Inr [SplitKernel (replicate (nat (rank sl slate_expr)) 0) kinfo]))))"

text \<open>
  Of \<open>generate_loopy_kernel\<close> the two checks are modelled; everything after them (the
  loopy builder, the translation to GEM and loopy, code generation and the kernel info)
  is the parameter \<open>loopy_pipeline\<close>.
\<close>

definition generate_loopy_kernel ::
  "slate \<Rightarrow> (expr \<Rightarrow> params \<Rightarrow> kernel_info result) \<Rightarrow> expr \<Rightarrow> params \<Rightarrow> split_kernel list result" where
  "generate_loopy_kernel sl loopy_pipeline slate_expr tsfc_parameters =
     (if is_mixed sl slate_expr
      then Inl (NotImplementedError ''Compiling mixed slate expressions'')
      else if length (ufl_domains sl slate_expr) > 1
      then Inl (NotImplementedError ''Multiple domains not implemented.'')
      else rbind (loopy_pipeline slate_expr tsfc_parameters) (\<lambda>kinfo.
           Inr [SplitKernel (replicate (nat (rank sl slate_expr)) 0) kinfo]))"

subsection \<open>The argument list of the loopy kernel\<close>

text \<open>
  Of \<open>gem_to_loopy\<close> the model keeps the assembly of the argument list; the
  translation of the GEM expression itself is done by imported code.
\<close>

datatype larg =
    GlobalArg string "int list" string
  | TemporaryVariable string "int list" string

record loopy_builder =
  lb_expression :: expr
  lb_temps :: "(expr \<times> string) list"
  gem_loopy_dict :: "(string \<times> larg) list"
  lb_shape :: "expr \<Rightarrow> int list"
  args_extents :: "(string \<times> int) list"
  coordinates_arg :: string
  cell_orientations_arg :: string
  cell_size_arg :: string
  cell_facets_arg :: string
  needs_cell_orientations :: bool
  lb_needs_cell_sizes :: bool
  lb_needs_cell_facets :: bool
  lb_needs_mesh_layers :: bool
  lb_coefficient_vecs :: "(int \<times> cinfo list) list"
  num_facets :: int








subsection \<open>The kernel cache\<close>

text \<open>
  \<open>str(sorted(tsfc_parameters.items()))\<close>: the parameters are a dictionary, an
  association list with distinct keys, so sorting its items sorts them by key.
\<close>

fun join :: "string \<Rightarrow> string list \<Rightarrow> string" where
  "join sep [] = []"
| "join sep [x] = x"
| "join sep (x # y # ys) = x @ sep @ join sep (y # ys)"

definition py_str :: "params \<Rightarrow> string" where
  "py_str items = ''['' @ join '', '' (map (\<lambda>(k, v). ''('' @ k @ '', '' @ v @ '')'') items) @ '']''"

definition sorted_items :: "params \<Rightarrow> params" where
  "sorted_items tsfc_parameters = sort_key fst tsfc_parameters"


definition SlateKernel ::
  "slate \<Rightarrow> (expr \<Rightarrow> params \<Rightarrow> builder result) \<Rightarrow> (expr \<Rightarrow> params \<Rightarrow> kernel_info result)
   \<Rightarrow> expr \<Rightarrow> params \<Rightarrow> bool \<Rightarrow> split_kernel list result" where
  "SlateKernel sl LocalKernelBuilder loopy_pipeline expr tsfc_parameters coffee =
     (if coffee then generate_kernel sl LocalKernelBuilder expr tsfc_parameters
      else generate_loopy_kernel sl loopy_pipeline expr tsfc_parameters)"

type_synonym metakernel_cache = "string \<rightharpoonup> split_kernel list"

text \<open>
  \<open>compile_expression\<close> takes the \<open>_metakernel_cache\<close> of the expression and returns
  it with the result.
\<close>

definition compile_expression ::
  "slate \<Rightarrow> (expr \<Rightarrow> params \<Rightarrow> builder result) \<Rightarrow> (expr \<Rightarrow> params \<Rightarrow> kernel_info result)
   \<Rightarrow> metakernel_cache \<Rightarrow> expr \<Rightarrow> params option \<Rightarrow> bool
   \<Rightarrow> split_kernel list result \<times> metakernel_cache" where
  "compile_expression sl LocalKernelBuilder loopy_pipeline cache slate_expr tsfc_parameters coffee =
     (let tsfc_parameters = (case tsfc_parameters of None \<Rightarrow> form_compiler_parameters sl
                             | Some p \<Rightarrow> p);
          key = py_str (sorted_items tsfc_parameters)
      in case cache key of
           Some k \<Rightarrow> (Inr k, cache)
         | None \<Rightarrow>
            (case SlateKernel sl LocalKernelBuilder loopy_pipeline slate_expr tsfc_parameters coffee of
               Inl e \<Rightarrow> (Inl e, cache)
             | Inr kern \<Rightarrow>
                (case cache key of
                   Some k \<Rightarrow> (Inr k, cache)
                 | None \<Rightarrow> (Inr kern, cache(key \<mapsto> kern)))))"

subsection \<open>Running the emitted dispatch code\<close>

text \<open>
  The facet loop and the layer test branch on the kernel's integer inputs only. To say
  which calls a kernel makes, the emitted statements are run on those inputs: an
  environment gives every symbol its value at a list of indices, a counted loop runs its
  body once for every value of its index, and the result is the sequence of the simple
  statements executed.
\<close>

type_synonym cenv = "string \<Rightarrow> int list \<Rightarrow> int"

fun eval :: "cenv \<Rightarrow> cexpr \<Rightarrow> int" where
  "eval env (Symbol s rnk) = env s (map (eval env) rnk)"
| "eval env (IntLit n) = n"
| "eval env (Sum a b) = eval env a + eval env b"
| "eval env (Eq a b) = (if eval env a = eval env b then 1 else 0)"
| "eval env (Less a b) = (if eval env a < eval env b then 1 else 0)"
| "eval env (Cpp c) = 0"

fun loop_range :: "stmt \<Rightarrow> cexpr \<Rightarrow> stmt \<Rightarrow> (string \<times> int \<times> int) option" where
  "loop_range (Decl ty v (Some lo) q p) (Less (Symbol v1 []) (IntLit hi)) (Incr (Symbol v2 []) (IntLit st)) =
     (if v1 = v \<and> v2 = v \<and> st = 1 then Some (v, lo, hi) else None)"
| "loop_range _ _ _ = None"

fun exec :: "cenv \<Rightarrow> stmt \<Rightarrow> stmt list" where
  "exec env (If c t e) =
     (if eval env c \<noteq> 0 then exec env t
      else (case e of None \<Rightarrow> [] | Some s \<Rightarrow> exec env s))"
| "exec env (AstBlock ss) = concat (map (exec env) ss)"
| "exec env (For init cond inc body) =
     (case loop_range init cond inc of
        None \<Rightarrow> []
      | Some (v, lo, hi) \<Rightarrow>
          concat (map (\<lambda>i. concat (map (exec (env(v := (\<lambda>_. i)))) body)) [lo .. hi - 1]))"
| "exec env s = [s]"

subsection \<open>What a statement reads and writes\<close>

fun cexpr_uses :: "cexpr \<Rightarrow> string list" where
  "cexpr_uses (Symbol s rnk) = s # concat (map cexpr_uses rnk)"
| "cexpr_uses (IntLit n) = []"
| "cexpr_uses (Sum a b) = cexpr_uses a @ cexpr_uses b"
| "cexpr_uses (Eq a b) = cexpr_uses a @ cexpr_uses b"
| "cexpr_uses (Less a b) = cexpr_uses a @ cexpr_uses b"
| "cexpr_uses (Cpp c) = code_uses c"

fun index_uses :: "cexpr \<Rightarrow> string list" where
  "index_uses (Symbol s rnk) = concat (map cexpr_uses rnk)"
| "index_uses e = cexpr_uses e"

fun target :: "cexpr \<Rightarrow> string list" where
  "target (Symbol s rnk) = [s]"
| "target e = []"

fun reads :: "stmt \<Rightarrow> string list" where
  "reads (FlatBlock c) = code_uses c"
| "reads (Decl ty s init q p) = []"
| "reads (Assign lhs rhs) = index_uses lhs @ cexpr_uses rhs"
| "reads (Incr lhs rhs) = cexpr_uses lhs @ cexpr_uses rhs"
| "reads (If c t e) = cexpr_uses c @ reads t @ (case e of None \<Rightarrow> [] | Some s \<Rightarrow> reads s)"
| "reads (AstBlock ss) = concat (map reads ss)"
| "reads (For init cond inc body) =
     reads init @ cexpr_uses cond @ reads inc @ concat (map reads body)"
| "reads (Str c) = code_uses c"
| "reads (FunCall f args) = args"

fun writes :: "stmt \<Rightarrow> string list" where
  "writes (FlatBlock c) = code_defs c"
| "writes (Decl ty s init q p) = (case init of None \<Rightarrow> [] | Some _ \<Rightarrow> [s])"
| "writes (Assign lhs rhs) = target lhs"
| "writes (Incr lhs rhs) = target lhs"
| "writes (If c t e) = writes t @ (case e of None \<Rightarrow> [] | Some s \<Rightarrow> writes s)"
| "writes (AstBlock ss) = concat (map writes ss)"
| "writes (For init cond inc body) = writes init @ writes inc @ concat (map writes body)"
| "writes (Str c) = code_defs c"
| "writes (FunCall f args) = []"

text \<open>
  \<open>reads_after_writes N W ss\<close>: running down the statements \<open>ss\<close>, with the symbols
  \<open>W\<close> written before them, every statement reads only such symbols of \<open>N\<close> as an
  earlier statement has written.
\<close>

fun reads_after_writes :: "string set \<Rightarrow> string set \<Rightarrow> stmt list \<Rightarrow> bool" where
  "reads_after_writes N W [] = True"
| "reads_after_writes N W (s # ss) =
     ((\<forall>x \<in> set (reads s). x \<in> N \<longrightarrow> x \<in> W) \<and> reads_after_writes N (W \<union> set (writes s)) ss)"

subsection \<open>Where a node is evaluated\<close>

text \<open>
  \<open>sites tmps e\<close> lists the nodes whose own operation \<open>slate_to_cpp\<close> writes out
  when it lowers \<open>e\<close>: every node it reaches that is not in \<open>tmps\<close>. \<open>auxiliary_sites\<close>
  collects them over the loop of \<open>auxiliary_expressions\<close>, which lowers the node itself
  or, for a factorization, declares it on its lowered operand.
\<close>

function sites :: "temps \<Rightarrow> expr \<Rightarrow> expr list" where
  "sites tmps e =
     (if map_of tmps e = None then e # concat (map (sites tmps) (operands e)) else [])"
  by pat_completeness auto
termination
  apply (relation "measure (\<lambda>(tmps, e). size e)")
   apply simp
  apply (case_tac e)
           apply auto
  done

declare sites.simps [simp del]

definition auxiliary_name :: "expr \<Rightarrow> temps \<Rightarrow> string" where
  "auxiliary_name exp declared_temps =
     (if is_Factorization exp then ''dec'' else ''auxT'') @ string_of_nat (length declared_temps)"

fun auxiliary_sites :: "expr list \<Rightarrow> temps \<Rightarrow> expr list" where
  "auxiliary_sites [] declared_temps = []"
| "auxiliary_sites (exp # rest) declared_temps =
     (if map_of declared_temps exp = None
      then (exp # concat (map (sites declared_temps) (operands exp)))
           @ auxiliary_sites rest (dict_set declared_temps exp (auxiliary_name exp declared_temps))
      else auxiliary_sites rest declared_temps)"

text \<open>
  What the specification asks of \<open>topological_sort\<close>: no node twice, and every node
  after all of its operands.
\<close>

fun dependency_order :: "expr list \<Rightarrow> expr list \<Rightarrow> bool" where
  "dependency_order seen [] = True"
| "dependency_order seen (x # xs) =
     (x \<notin> set seen \<and> set (operands x) \<subseteq> set seen \<and> dependency_order (x # seen) xs)"

subsection \<open>Requests to the cache\<close>

definition items_of :: "slate \<Rightarrow> params option \<Rightarrow> params" where
  "items_of sl po = (case po of None \<Rightarrow> form_compiler_parameters sl | Some p \<Rightarrow> p)"


subsection \<open>An example\<close>

text \<open>
  A product of one sum with itself, on two assembled tensors, with cell, facet and layer
  integrals.
\<close>

definition ex_f :: coeff_function where
  "ex_f = \<lparr> fname = ''f'', mixed_element = False, nsplit = 1 \<rparr>"

definition ex_slate :: slate where
  "ex_slate =
     \<lparr> shape = (\<lambda>e. case e of expr.Block _ _ \<Rightarrow> [2, 3] | AssembledVector _ \<Rightarrow> [3] | _ \<Rightarrow> [3, 3]),
       rank = (\<lambda>e. case e of AssembledVector _ \<Rightarrow> 1 | _ \<Rightarrow> 2),
       prec = (\<lambda>e. case e of Add _ _ \<Rightarrow> Some 1 | Negative _ \<Rightarrow> Some 1 | Mul _ _ \<Rightarrow> Some 2
                    | Solve _ _ \<Rightarrow> Some 2 | _ \<Rightarrow> None),
       shapes = (\<lambda>e. [[1, 2], [1, 2]]),
       is_mixed = (\<lambda>e. False),
       ufl_domains = (\<lambda>e. [''mesh'']),
       coefficients = (\<lambda>e. [ex_f]),
       expression_hash = (\<lambda>e. ''hash''),
       ScalarType_c = ''double'',
       topological_sort = rev,
       form_compiler_parameters = [(''mode'', ''vanilla'')],
       vec_function = (\<lambda>e. ex_f),
       md5 = (\<lambda>s. s),
       comm = (\<lambda>d. d) \<rparr>"

definition ex_shared :: expr where
  "ex_shared = Add (Tensor ''A'') (Tensor ''B'')"

definition ex_expr :: expr where
  "ex_expr = Mul ex_shared ex_shared"

definition ex_calls :: assembly_calls where
  "ex_calls =
     \<lparr> cell = [FunCall ''cell_A'' [''T0'', ''coords'']],
       interior_facet = [FunCall ''int_B'' [''T1'', ''coords'']],
       interior_facet_vert = [],
       exterior_facet = [FunCall ''ext_B'' [''T1'', ''coords'']],
       exterior_facet_vert = [],
       subdomains_exterior_facet = [],
       subdomains_interior_facet = [(2, FunCall ''int_sd2_A'' [''T0'', ''coords''])],
       interior_facet_horiz_top = [FunCall ''int_top_A'' [''T0'', ''coords'']],
       interior_facet_horiz_bottom = [FunCall ''int_btm_A'' [''T0'', ''coords'']],
       exterior_facet_top = [FunCall ''ext_top_B'' [''T1'', ''coords'']],
       exterior_facet_bottom = [FunCall ''ext_btm_B'' [''T1'', ''coords'']] \<rparr>"

definition ex_builder :: builder where
  "ex_builder =
     \<lparr> expression = ex_expr,
       temps = [(Tensor ''A'', ''T0''), (Tensor ''B'', ''T1'')],
       assembly_calls = ex_calls,
       coefficient_vecs = [],
       coefficient = (\<lambda>f. [''w_0'']),
       expression_dag = [ex_expr, ex_shared, Tensor ''A'', Tensor ''B''],
       ref_counter = (\<lambda>e. if e = ex_shared then 2 else 1),
       needs_cell_facets = True,
       needs_mesh_layers = True,
       needs_cell_sizes = True,
       oriented = True,
       integral_type = ''cell'',
       coord_sym = ''coords'',
       cell_orientations_sym = ''cell_orientations'',
       cell_facet_sym = ''cell_facets'',
       it_sym = ''i0'',
       mesh_layer_sym = ''layer'',
       cell_size_sym = ''cell_sizes'',
       extruded = False,
       cell_num_facets = 3,
       base_cell_num_facets = 3,
       layers = 6 \<rparr>"

definition ex_LocalKernelBuilder :: "expr \<Rightarrow> params \<Rightarrow> builder result" where
  "ex_LocalKernelBuilder e p = Inr ex_builder"

definition ex_loopy_pipeline :: "expr \<Rightarrow> params \<Rightarrow> kernel_info result" where
  "ex_loopy_pipeline e p = Inl (ValueError ''no loopy'')"

subsection \<open>The calls of one facet\<close>

text \<open>
  \<open>members G x\<close> are the members of the groups of \<open>G\<close> with key \<open>x\<close>.
  \<open>facet_calls b env f\<close> are the calls that the dispatch on the marker row of facet
  \<open>f\<close> selects: row \<open>f\<close> of the buffer \<open>cell_facet_sym\<close> holds the
  exterior/interior marker in column 0 and the subdomain id in column 1.
\<close>

definition members :: "('k \<times> 'a list) list \<Rightarrow> 'k \<Rightarrow> 'a list" where
  "members G x = concat (map snd (filter (\<lambda>p. fst p = x) G))"

definition facet_calls :: "builder \<Rightarrow> cenv \<Rightarrow> int \<Rightarrow> stmt list" where
  "facet_calls b env f =
     (let calls = assembly_calls b;
          marker = env (cell_facet_sym b) [f, 0];
          sd = env (cell_facet_sym b) [f, 1]
      in (if marker = 0
          then exterior_facet calls @ exterior_facet_vert calls
               @ map snd (filter (\<lambda>p. fst p = sd) (subdomains_exterior_facet calls))
          else [])
       @ (if marker = 1
          then interior_facet calls @ interior_facet_vert calls
               @ map snd (filter (\<lambda>p. fst p = sd) (subdomains_interior_facet calls))
          else []))"

text \<open>The marker buffer \<open>[[1,0],[0,0],[1,2]]\<close>, and a layer index.\<close>

definition ex_facet_env :: cenv where
  "ex_facet_env = (\<lambda>s idx. if s = ''cell_facets''
      then (case idx of [f, c] \<Rightarrow> ([[1, 0], [0, 0], [1, 2]] ! nat f) ! nat c | _ \<Rightarrow> 0) else 0)"

definition ex_layer_env :: "int \<Rightarrow> cenv" where
  "ex_layer_env l = (\<lambda>s idx. if s = ''layer'' then l else 0)"

subsection \<open>Examples for the argument lists and the coefficient loops\<close>


text \<open>
  One assembled vector on a mixed space of two components with three unknowns each: the
  builder files both components under the extent 3, with the offsets 0 and 3.
\<close>

definition ex_vec :: expr where
  "ex_vec = AssembledVector ''f''"

definition ex_coefficient_builder :: builder where
  "ex_coefficient_builder =
     ex_builder \<lparr> expression := Mul (Tensor ''A'') ex_vec,
                  coefficient_vecs :=
                    [(3, [\<lparr> space_index = 0, offset_index = 0, c_shape = [6], vector = ex_vec,
                             local_temp = ''VT0'' \<rparr>,
                          \<lparr> space_index = 1, offset_index = 3, c_shape = [6], vector = ex_vec,
                             local_temp = ''VT0'' \<rparr>])],
                  coefficient := (\<lambda>f. [''w_0_0'', ''w_0_1'']) \<rparr>"

subsection \<open>Blocks with gaps\<close>







section \<open>Properties\<close>

subsection \<open>Results\<close>

lemma rbind_Inr [simp]: "rbind (Inr x) f = f x"
  by (simp add: rbind_def)

lemma rbind_Inl [simp]: "rbind (Inl e) f = Inl e"
  by (simp add: rbind_def)

lemma rbind_eq_Inr: "(rbind r f = Inr y) = (\<exists>x. r = Inr x \<and> f x = Inr y)"
  by (cases r) auto

lemma not_isl_Inr: "\<not> isl r \<Longrightarrow> \<exists>x. r = Inr x"
  by (cases r) auto

subsection \<open>The last statement of the kernel\<close>

lemma kernel_body_tail:
  "kernel_body sl b statements declared_temps = Inr body \<Longrightarrow>
   \<exists>cpp pre fill.
     slate_to_cpp sl declared_temps (expression b) None = Inr cpp \<and>
     body = pre @ [FlatBlock (fill @ [Def (''T'' @ string_of_nat (length declared_temps)),
                     Lit (''(('' @ ScalarType_c sl @ '' *)A'' @ string_of_nat (length declared_temps)
                          @ '');\<newline>'')]),
                   FlatBlock [Lit ''/* Linear algebra expression */\<newline>''],
                   Incr (Symbol (''T'' @ string_of_nat (length declared_temps)) []) (Cpp cpp)]"
  by (auto simp: kernel_body_def Let_def rbind_eq_Inr)

text \<open>
  C8. When \<open>generate_kernel\<close> returns a kernel, the last statement of its body
  is \<open>Incr\<close>, an incrementing assignment, of the lowered root expression to the symbol
  \<open>T<n>\<close>, and the statement two places before it declares \<open>T<n>\<close> as an Eigen map
  of \<open>A<n>\<close>, which is the first argument of the kernel, the output buffer.
\<close>

theorem final_statement_is_increment:
  assumes "generate_kernel sl LocalKernelBuilder e p = Inr ks"
  shows "\<exists>b stmts dt idx kinfo cpp pre fill.
      LocalKernelBuilder e p = Inr b \<and> kernel_statements sl b = Inr (stmts, dt) \<and>
      ks = [SplitKernel idx kinfo] \<and>
      slate_to_cpp sl dt (expression b) None = Inr cpp \<and>
      hd (k_args (ki_kernel kinfo))
        = Decl (ScalarType_c sl) (''A'' @ string_of_nat (length dt)) None [] [''restrict''] \<and>
      k_body (ki_kernel kinfo)
        = pre @ [FlatBlock (fill @ [Def (''T'' @ string_of_nat (length dt)),
                   Lit (''(('' @ ScalarType_c sl @ '' *)A'' @ string_of_nat (length dt) @ '');\<newline>'')]),
                 FlatBlock [Lit ''/* Linear algebra expression */\<newline>''],
                 Incr (Symbol (''T'' @ string_of_nat (length dt)) []) (Cpp cpp)] \<and>
      last (k_body (ki_kernel kinfo))
        = Incr (Symbol (''T'' @ string_of_nat (length dt)) []) (Cpp cpp)"
proof -
  from assms obtain b stmts dt kinfo where
    b: "LocalKernelBuilder e p = Inr b" and
    st: "kernel_statements sl b = Inr (stmts, dt)" and
    ki: "generate_kernel_ast sl b stmts dt = Inr kinfo" and
    ks: "ks = [SplitKernel (replicate (nat (rank sl e)) 0) kinfo]"
    by (auto simp: generate_kernel_def rbind_eq_Inr split: if_splits)
  from ki obtain body where
    body: "kernel_body sl b stmts dt = Inr body" and
    kb: "k_body (ki_kernel kinfo) = body" and
    ka: "k_args (ki_kernel kinfo)
          = kernel_args sl b (Decl (ScalarType_c sl) (''A'' @ string_of_nat (length dt))
                                    None [] [''restrict''])"
    by (auto simp: generate_kernel_ast_def rbind_eq_Inr)
  from kernel_body_tail [OF body] obtain cpp pre fill where
    cpp: "slate_to_cpp sl dt (expression b) None = Inr cpp" and
    tail: "body = pre @ [FlatBlock (fill @ [Def (''T'' @ string_of_nat (length dt)),
                   Lit (''(('' @ ScalarType_c sl @ '' *)A'' @ string_of_nat (length dt) @ '');\<newline>'')]),
                 FlatBlock [Lit ''/* Linear algebra expression */\<newline>''],
                 Incr (Symbol (''T'' @ string_of_nat (length dt)) []) (Cpp cpp)]"
    by blast
  have hd: "hd (k_args (ki_kernel kinfo))
        = Decl (ScalarType_c sl) (''A'' @ string_of_nat (length dt)) None [] [''restrict'']"
    by (simp add: ka kernel_args_def)
  have lst: "last (k_body (ki_kernel kinfo))
        = Incr (Symbol (''T'' @ string_of_nat (length dt)) []) (Cpp cpp)"
    by (simp add: kb tail)
  show ?thesis
    using b st ks cpp hd lst tail kb by blast
qed

theorem final_statement_is_increment_witness:
  "\<exists>ks kinfo idx c. generate_kernel ex_slate ex_LocalKernelBuilder ex_expr [] = Inr ks \<and>
     ks = [SplitKernel idx kinfo] \<and>
     last (k_body (ki_kernel kinfo)) = Incr (Symbol ''T3'' []) (Cpp c)"
proof -
  have "\<not> isl (generate_kernel ex_slate ex_LocalKernelBuilder ex_expr [])"
    by code_simp
  then obtain ks where ks: "generate_kernel ex_slate ex_LocalKernelBuilder ex_expr [] = Inr ks"
    by (auto dest: not_isl_Inr)
  from final_statement_is_increment [OF ks] obtain b stmts dt idx kinfo cpp where
    b: "ex_LocalKernelBuilder ex_expr [] = Inr b" and
    st: "kernel_statements ex_slate b = Inr (stmts, dt)" and
    k: "ks = [SplitKernel idx kinfo]" and
    l: "last (k_body (ki_kernel kinfo))
          = Incr (Symbol (''T'' @ string_of_nat (length dt)) []) (Cpp cpp)"
    by blast
  from b have b': "b = ex_builder"
    by (simp add: ex_LocalKernelBuilder_def)
  have "length (snd (projr (kernel_statements ex_slate ex_builder))) = 3"
    by code_simp
  with st b' have "length dt = 3"
    by simp
  moreover have "string_of_nat 3 = ''3''"
    by code_simp
  ultimately show ?thesis
    using ks k l by auto
qed

subsection \<open>The kernel cache\<close>








subsection \<open>Mixed expressions and several domains\<close>

text \<open>
  C10. For an expression that is mixed or has more than one domain,
  \<open>generate_kernel\<close> and \<open>generate_loopy_kernel\<close> return \<open>NotImplementedError\<close>
  whatever the builder and the rest of the pipeline would do, so before either is run;
  \<open>compile_expression\<close> returns the cache it was given, and, unless the cache it was
  given already holds a kernel under the key, returns that error.
\<close>

theorem mixed_or_multidomain_rejected:
  assumes "is_mixed sl e \<or> length (ufl_domains sl e) > 1"
  shows "generate_kernel sl B e p = Inl (NotImplementedError
            (if is_mixed sl e then ''Compiling mixed slate expressions''
             else ''Multiple domains not implemented.''))
       \<and> generate_loopy_kernel sl P e p = Inl (NotImplementedError
            (if is_mixed sl e then ''Compiling mixed slate expressions''
             else ''Multiple domains not implemented.''))
       \<and> snd (compile_expression sl B P cache e po c) = cache
       \<and> (cache (py_str (sorted_items (items_of sl po))) = None \<longrightarrow>
          fst (compile_expression sl B P cache e po c) = Inl (NotImplementedError
            (if is_mixed sl e then ''Compiling mixed slate expressions''
             else ''Multiple domains not implemented.'')))"
  using assms
  by (auto simp: generate_kernel_def generate_loopy_kernel_def compile_expression_def
      SlateKernel_def items_of_def Let_def split: option.splits)

theorem mixed_or_multidomain_rejected_witness:
  "length (ufl_domains (ex_slate\<lparr>ufl_domains := (\<lambda>e. [''mesh'', ''other''])\<rparr>) ex_expr) > 1
   \<and> generate_kernel (ex_slate\<lparr>ufl_domains := (\<lambda>e. [''mesh'', ''other''])\<rparr>)
        ex_LocalKernelBuilder ex_expr []
      = Inl (NotImplementedError ''Multiple domains not implemented.'')
   \<and> compile_expression (ex_slate\<lparr>ufl_domains := (\<lambda>e. [''mesh'', ''other''])\<rparr>)
        ex_LocalKernelBuilder ex_loopy_pipeline Map.empty ex_expr None True
      = (Inl (NotImplementedError ''Multiple domains not implemented.''), Map.empty)"
proof -
  let ?sl = "ex_slate\<lparr>ufl_domains := (\<lambda>e. [''mesh'', ''other''])\<rparr>"
  have h: "is_mixed ?sl ex_expr \<or> length (ufl_domains ?sl ex_expr) > 1"
    by simp
  have nm: "\<not> is_mixed ?sl ex_expr"
    by (simp add: ex_slate_def)
  show ?thesis
    using mixed_or_multidomain_rejected [OF h, of ex_LocalKernelBuilder "[]" ex_loopy_pipeline
        Map.empty None True] nm
    by (cases "compile_expression ?sl ex_LocalKernelBuilder ex_loopy_pipeline Map.empty
          ex_expr None True") (simp_all)
qed

subsection \<open>Facet dispatch\<close>

lemma members_Nil [simp]: "members [] x = []"
  by (simp add: members_def)

lemma members_Cons [simp]:
  "members ((k, g) # G) x = (if k = x then g @ members G x else members G x)"
  by (simp add: members_def)

lemma members_absent: "x \<notin> fst ` set G \<Longrightarrow> members G x = []"
  by (induction G) auto

lemma group_add_keys: "fst ` set (group_add G k a) = insert k (fst ` set G)"
  by (induction G k a rule: group_add.induct) auto

lemma group_add_distinct: "distinct (map fst G) \<Longrightarrow> distinct (map fst (group_add G k a))"
  by (induction G) (auto simp: group_add_keys)

lemma members_group_add:
  "distinct (map fst G) \<Longrightarrow>
   members (group_add G k a) x = members G x @ (if k = x then [a] else [])"
  by (induction G) (auto simp: members_absent)

lemma foldl_group_add:
  "distinct (map fst G) \<Longrightarrow>
   distinct (map fst (foldl (\<lambda>groups elem. group_add groups (key elem) elem) G xs)) \<and>
   members (foldl (\<lambda>groups elem. group_add groups (key elem) elem) G xs) x
     = members G x @ filter (\<lambda>e. key e = x) xs"
proof (induction xs arbitrary: G)
  case Nil
  then show ?case by simp
next
  case (Cons a xs)
  have d: "distinct (map fst (group_add G (key a) a))"
    using Cons.prems by (rule group_add_distinct)
  show ?case
    using Cons.IH [OF d] members_group_add [OF Cons.prems, of "key a" a x]
    by auto
qed

lemma members_groupby: "members (groupby xs key) x = filter (\<lambda>e. key e = x) xs"
  using foldl_group_add [of "[]" key xs x] by (simp add: groupby_def)

lemma exec_subdomain_stmts:
  assumes "cell_facet_sym b \<noteq> it_sym b"
  shows "concat (map (exec (env(it_sym b := (\<lambda>_. f)))) (subdomain_stmts b sdc))
   = concat (map (exec (env(it_sym b := (\<lambda>_. f))))
       (map snd (filter (\<lambda>p. fst p = env (cell_facet_sym b) [f, 1]) sdc)))"
proof -
  have g: "concat (map (exec (env(it_sym b := (\<lambda>_. f))))
             (map (\<lambda>(sd, sd_calls).
                If (Eq (Symbol (cell_facet_sym b) [Symbol (it_sym b) [], IntLit 1]) (IntLit sd))
                   (AstBlock (map snd sd_calls)) None) G))
     = concat (map (exec (env(it_sym b := (\<lambda>_. f))))
         (map snd (members G (env (cell_facet_sym b) [f, 1]))))"
    for G :: "(int \<times> (int \<times> stmt) list) list"
    using assms by (induction G) (auto)
  show ?thesis
    using g [of "groupby sdc fst"] by (simp add: subdomain_stmts_def members_groupby)
qed

lemma exec_guarded_calls:
  assumes "cell_facet_sym b \<noteq> it_sym b"
  shows "concat (map (exec (env(it_sym b := (\<lambda>_. f))))
           (if calls @ subdomain_stmts b sdc \<noteq> []
            then [If (Eq (Symbol (cell_facet_sym b) [Symbol (it_sym b) [], IntLit 0]) (IntLit m))
                     (AstBlock (calls @ subdomain_stmts b sdc)) None]
            else []))
       = (if env (cell_facet_sym b) [f, 0] = m
          then concat (map (exec (env(it_sym b := (\<lambda>_. f))))
                 (calls @ map snd (filter (\<lambda>p. fst p = env (cell_facet_sym b) [f, 1]) sdc)))
          else [])"
proof (cases "calls @ subdomain_stmts b sdc = []")
  case True
  then have c: "calls = []" and s: "subdomain_stmts b sdc = []"
    by simp_all
  from exec_subdomain_stmts [OF assms, of env f sdc] s
  have "concat (map (exec (env(it_sym b := (\<lambda>_. f))))
       (map snd (filter (\<lambda>p. fst p = env (cell_facet_sym b) [f, 1]) sdc))) = []"
    by simp
  then show ?thesis
    using c s by simp
next
  case False
  then show ?thesis
    using assms exec_subdomain_stmts [OF assms, of env f sdc] by simp
qed

lemma exec_facet_body:
  assumes "cell_facet_sym b \<noteq> it_sym b"
  shows "concat (map (exec (env(it_sym b := (\<lambda>_. f)))) (facet_body b))
       = concat (map (exec (env(it_sym b := (\<lambda>_. f)))) (facet_calls b env f))"
proof -
  have "concat (map (exec (env(it_sym b := (\<lambda>_. f)))) (facet_body b))
      = (if env (cell_facet_sym b) [f, 0] = 0
          then concat (map (exec (env(it_sym b := (\<lambda>_. f))))
                 ((exterior_facet (assembly_calls b) @ exterior_facet_vert (assembly_calls b))
                  @ map snd (filter (\<lambda>p. fst p = env (cell_facet_sym b) [f, 1])
                       (subdomains_exterior_facet (assembly_calls b)))))
          else [])
      @ (if env (cell_facet_sym b) [f, 0] = 1
          then concat (map (exec (env(it_sym b := (\<lambda>_. f))))
                 ((interior_facet (assembly_calls b) @ interior_facet_vert (assembly_calls b))
                  @ map snd (filter (\<lambda>p. fst p = env (cell_facet_sym b) [f, 1])
                       (subdomains_interior_facet (assembly_calls b)))))
          else [])"
    unfolding facet_body_def Let_def ext_calls_def int_calls_def map_append concat_append
      exec_guarded_calls [OF assms] ..
  also have "\<dots> = concat (map (exec (env(it_sym b := (\<lambda>_. f)))) (facet_calls b env f))"
    by (simp add: facet_calls_def Let_def)
  finally show ?thesis .
qed

lemma exec_facet_loop:
  "exec env (facet_loop b)
     = concat (map (\<lambda>f. concat (map (exec (env(it_sym b := (\<lambda>_. f)))) (facet_body b)))
         [0 .. (if extruded b then base_cell_num_facets b else cell_num_facets b) - 1])"
  by (simp add: facet_loop_def Let_def)

text \<open>
  C4. When facet integrals are needed, the statements of
  \<open>tensor_assembly_calls\<close> contain the facet loop, and running it executes, for the
  facets \<open>0, \<dots>, num_facets - 1\<close> in turn, exactly \<open>facet_calls\<close>: the exterior
  calls when column 0 of the facet's marker row is 0, the interior calls when it is 1,
  and of the subdomain calls of that kind those whose subdomain id equals column 1.
  (The marker buffer and the loop index are different symbols.)
\<close>

theorem facet_dispatch:
  assumes "needs_cell_facets b" and "cell_facet_sym b \<noteq> it_sym b"
  shows "facet_loop b \<in> set (tensor_assembly_calls b) \<and>
     exec env (facet_loop b)
       = concat (map (\<lambda>f. concat (map (exec (env(it_sym b := (\<lambda>_. f)))) (facet_calls b env f)))
                     [0 .. (if extruded b then base_cell_num_facets b else cell_num_facets b) - 1])"
proof -
  have 1: "facet_loop b \<in> set (tensor_assembly_calls b)"
    using assms(1) by (simp add: tensor_assembly_calls_def)
  have 2: "exec env (facet_loop b)
       = concat (map (\<lambda>f. concat (map (exec (env(it_sym b := (\<lambda>_. f)))) (facet_calls b env f)))
                     [0 .. (if extruded b then base_cell_num_facets b else cell_num_facets b) - 1])"
    unfolding exec_facet_loop exec_facet_body [OF assms(2)] ..
  show ?thesis using 1 2 by blast
qed

text \<open>
  The example of the specification: with the marker buffer \<open>[[1,0],[0,0],[1,2]]\<close>
  facets 0 and 2 make the interior call, facet 2 also the interior call of subdomain 2,
  and facet 1 makes the exterior call.
\<close>

theorem facet_dispatch_witness:
  "needs_cell_facets ex_builder \<and> cell_facet_sym ex_builder \<noteq> it_sym ex_builder \<and>
   facet_loop ex_builder \<in> set (tensor_assembly_calls ex_builder) \<and>
   exec ex_facet_env (facet_loop ex_builder)
     = [FunCall ''int_B'' [''T1'', ''coords''],
        FunCall ''ext_B'' [''T1'', ''coords''],
        FunCall ''int_B'' [''T1'', ''coords''], FunCall ''int_sd2_A'' [''T0'', ''coords'']] \<and>
   map (facet_calls ex_builder ex_facet_env) [0, 1, 2]
     = [[FunCall ''int_B'' [''T1'', ''coords'']],
        [FunCall ''ext_B'' [''T1'', ''coords'']],
        [FunCall ''int_B'' [''T1'', ''coords''], FunCall ''int_sd2_A'' [''T0'', ''coords'']]]"
proof -
  have h1: "needs_cell_facets ex_builder"
    by (simp add: ex_builder_def)
  have h2: "cell_facet_sym ex_builder \<noteq> it_sym ex_builder"
    by (simp add: ex_builder_def)
  have r: "concat (map (\<lambda>f. concat (map (exec (ex_facet_env(it_sym ex_builder := (\<lambda>_. f))))
                                   (facet_calls ex_builder ex_facet_env f)))
             [0 .. (if extruded ex_builder then base_cell_num_facets ex_builder
                    else cell_num_facets ex_builder) - 1])
     = [FunCall ''int_B'' [''T1'', ''coords''],
        FunCall ''ext_B'' [''T1'', ''coords''],
        FunCall ''int_B'' [''T1'', ''coords''], FunCall ''int_sd2_A'' [''T0'', ''coords'']]"
    by code_simp
  have c: "map (facet_calls ex_builder ex_facet_env) [0, 1, 2]
     = [[FunCall ''int_B'' [''T1'', ''coords'']],
        [FunCall ''ext_B'' [''T1'', ''coords'']],
        [FunCall ''int_B'' [''T1'', ''coords''], FunCall ''int_sd2_A'' [''T0'', ''coords'']]]"
    by code_simp
  show ?thesis
    using facet_dispatch [OF h1 h2, of ex_facet_env] h1 h2 r c by simp
qed

subsection \<open>Layer dispatch\<close>

lemma exec_layer_dispatch:
  "exec env (layer_dispatch b) =
     (if env (mesh_layer_sym b) [] = 0
      then concat (map (exec env) (interior_facet_horiz_top (assembly_calls b)
                                   @ exterior_facet_bottom (assembly_calls b)))
      else if env (mesh_layer_sym b) [] = layers b - 1 - 1
      then concat (map (exec env) (interior_facet_horiz_bottom (assembly_calls b)
                                   @ exterior_facet_top (assembly_calls b)))
      else concat (map (exec env) (interior_facet_horiz_bottom (assembly_calls b)
                                   @ interior_facet_horiz_top (assembly_calls b))))"
  by (simp add: layer_dispatch_def Let_def)

text \<open>
  C5, as the claim states it, fails on a mesh of one layer (\<open>layers = 2\<close>, so
  \<open>num_layers = 1\<close>): there layer 0 is also layer \<open>num_layers - 1\<close>, and the kernel
  makes the bottom calls, not the top calls.
\<close>

theorem layer_dispatch_single_layer_counterexample:
  "ex_layer_env 0 (mesh_layer_sym (ex_builder\<lparr>layers := 2\<rparr>)) []
     = (layers (ex_builder\<lparr>layers := 2\<rparr>) - 1) - 1 \<and>
   exec (ex_layer_env 0) (layer_dispatch (ex_builder\<lparr>layers := 2\<rparr>))
     = [FunCall ''int_top_A'' [''T0'', ''coords''], FunCall ''ext_btm_B'' [''T1'', ''coords'']] \<and>
   exec (ex_layer_env 0) (layer_dispatch (ex_builder\<lparr>layers := 2\<rparr>))
     \<noteq> concat (map (exec (ex_layer_env 0))
          (interior_facet_horiz_bottom (assembly_calls (ex_builder\<lparr>layers := 2\<rparr>))
           @ exterior_facet_top (assembly_calls (ex_builder\<lparr>layers := 2\<rparr>))))"
  by (simp add: exec_layer_dispatch ex_builder_def ex_calls_def ex_layer_env_def)

text \<open>
  C5, amended. When the mesh is layered, the last statement of
  \<open>tensor_assembly_calls\<close> is a three-way conditional on the layer argument: layer 0
  makes only the bottom calls (interior-horizontal-top and exterior-bottom); layer
  \<open>num_layers - 1\<close>, when it is not layer 0, makes only the top calls
  (interior-horizontal-bottom and exterior-top); every other layer makes both sets of
  interior-horizontal calls and no exterior call. Here \<open>num_layers = layers - 1\<close>.
\<close>

theorem layer_dispatch_three_way:
  assumes "needs_mesh_layers b"
  shows "last (tensor_assembly_calls b) = layer_dispatch b \<and>
     exec env (layer_dispatch b) =
     (if env (mesh_layer_sym b) [] = 0
      then concat (map (exec env) (interior_facet_horiz_top (assembly_calls b)
                                   @ exterior_facet_bottom (assembly_calls b)))
      else if env (mesh_layer_sym b) [] = (layers b - 1) - 1
      then concat (map (exec env) (interior_facet_horiz_bottom (assembly_calls b)
                                   @ exterior_facet_top (assembly_calls b)))
      else concat (map (exec env) (interior_facet_horiz_bottom (assembly_calls b)
                                   @ interior_facet_horiz_top (assembly_calls b))))"
  using assms by (simp add: exec_layer_dispatch tensor_assembly_calls_def)

text \<open>With \<open>num_layers = 5\<close>: layer 0, layer 4 and the layers between.\<close>

theorem layer_dispatch_three_way_witness:
  "needs_mesh_layers ex_builder \<and> layers ex_builder - 1 = 5 \<and>
   exec (ex_layer_env 0) (layer_dispatch ex_builder)
     = [FunCall ''int_top_A'' [''T0'', ''coords''], FunCall ''ext_btm_B'' [''T1'', ''coords'']] \<and>
   exec (ex_layer_env 4) (layer_dispatch ex_builder)
     = [FunCall ''int_btm_A'' [''T0'', ''coords''], FunCall ''ext_top_B'' [''T1'', ''coords'']] \<and>
   map (\<lambda>l. exec (ex_layer_env l) (layer_dispatch ex_builder)) [1, 2, 3]
     = replicate 3 [FunCall ''int_btm_A'' [''T0'', ''coords''],
                    FunCall ''int_top_A'' [''T0'', ''coords'']]"
proof -
  have h: "needs_mesh_layers ex_builder"
    by (simp add: ex_builder_def)
  have e: "mesh_layer_sym ex_builder = ''layer''" "layers ex_builder = 6"
    "interior_facet_horiz_top (assembly_calls ex_builder) = [FunCall ''int_top_A'' [''T0'', ''coords'']]"
    "interior_facet_horiz_bottom (assembly_calls ex_builder) = [FunCall ''int_btm_A'' [''T0'', ''coords'']]"
    "exterior_facet_top (assembly_calls ex_builder) = [FunCall ''ext_top_B'' [''T1'', ''coords'']]"
    "exterior_facet_bottom (assembly_calls ex_builder) = [FunCall ''ext_btm_B'' [''T1'', ''coords'']]"
    by (simp_all add: ex_builder_def ex_calls_def)
  show ?thesis
    using h layer_dispatch_three_way [OF h, of "ex_layer_env 0"]
      layer_dispatch_three_way [OF h, of "ex_layer_env 1"]
      layer_dispatch_three_way [OF h, of "ex_layer_env 2"]
      layer_dispatch_three_way [OF h, of "ex_layer_env 3"]
      layer_dispatch_three_way [OF h, of "ex_layer_env 4"]
    by (simp add: e ex_layer_env_def numeral_3_eq_3)
qed

subsection \<open>The order of the arguments\<close>





subsection \<open>Coefficient loops\<close>

text \<open>
  C3. For the two components of a mixed coefficient, filed by the builder under the
  extent 3 with the offsets 0 and 3, \<open>coefficient_temporaries\<close> emits one loop over
  \<open>j1 < 3\<close>, not a loop nest, and the assignments \<open>VT0[0 + j1] = w_0_0[j1]\<close> and
  \<open>VT0[3 + j1] = w_0_1[j1]\<close>: the index has no term \<open>dof_extent * i1\<close> and the
  source is indexed once.
\<close>

theorem coefficient_temporaries_single_loop:
  "coefficient_temporaries ex_slate ex_coefficient_builder [] =
   Inr ([FlatBlock [Lit ''/* Coefficient temporaries */\<newline>''],
         Decl ''Eigen::Matrix<double, 6, 1>'' ''VT0'' None [] [],
         FlatBlock [Lit ''/* Loops for coefficient temps */\<newline>''],
         For (Decl ''unsigned int'' ''j1'' (Some 0) [] [])
             (Less (Symbol ''j1'' []) (IntLit 3))
             (Incr (Symbol ''j1'' []) (IntLit 1))
             [Assign (Symbol ''VT0'' [Sum (IntLit 0) (Symbol ''j1'' [])])
                     (Symbol ''w_0_0'' [Symbol ''j1'' []]),
              Assign (Symbol ''VT0'' [Sum (IntLit 3) (Symbol ''j1'' [])])
                     (Symbol ''w_0_1'' [Symbol ''j1'' []])]],
        [(ex_vec, ''VT0'')])"
  by code_simp

subsection \<open>Lowering of blocks\<close>


declare slate_to_cpp.simps [simp del]

lemma slate_to_cpp_hit:
  "map_of T e = Some t \<Longrightarrow> slate_to_cpp sl T e pr = Inr [Use t]"
  by (cases e) (simp_all add: slate_to_cpp.simps)














lemma dict_set_values: "snd ` set (dict_set d k v) \<subseteq> insert v (snd ` set d)"
  by (induction d k v rule: dict_set.induct) auto

lemma map_of_dict_set: "map_of (dict_set d k v) = (map_of d)(k \<mapsto> v)"
  by (induction d k v rule: dict_set.induct) auto




























end
